theory Spec2Isabelle
  imports Complex_Main
begin

section \<open>JavaScript values\<close>

text \<open>
  The plugin of \<^verbatim>\<open>src/index.ts\<close> moves JSON documents around: the token a provider
  answers with, the payload of the signed session cookie, the extra parameters of a
  provider. A JSON value is a \<open>jsval\<close>; an object is the list of its properties in the
  order they were added, every key occurring once. JavaScript numbers are modelled as
  reals (\<open>Date.now() / 1000\<close> is a fraction); how a number prints is left to the
  environment (\<open>number_to_string\<close> below) and plays no part in any statement.
  The special enumeration order of integer-like keys is not modelled.
\<close>

datatype jsval =
    JNull
  | JBool bool
  | JNum real
  | JStr string
  | JArr "jsval list"
  | JObj "(string \<times> jsval) list"

type_synonym obj = "(string \<times> jsval) list"

text \<open>Reading a property: \<open>None\<close> is JavaScript's \<open>undefined\<close>.\<close>

definition get_prop :: "obj \<Rightarrow> string \<Rightarrow> jsval option" where
  "get_prop ob k = map_of ob k"

text \<open>Assignment \<open>ob[k] = v\<close>: an existing property keeps its place, a new one goes last.\<close>

definition set_prop :: "string \<Rightarrow> jsval \<Rightarrow> obj \<Rightarrow> obj" where
  "set_prop k v ob =
     (if k \<in> fst ` set ob
      then map (\<lambda>(k', v'). if k' = k then (k', v) else (k', v')) ob
      else ob @ [(k, v)])"

text \<open>
  Object spread \<open>{ ...a, ...b }\<close>: the properties of \<open>a\<close>, then those of \<open>b\<close> assigned
  one after the other, so that on a common key the value of \<open>b\<close> stays.
\<close>

definition spread :: "obj \<Rightarrow> obj \<Rightarrow> obj" where
  "spread a b = fold (\<lambda>(k, v) ob. set_prop k v ob) b a"

text \<open>Decimal digits of a natural number, as a template literal prints an integer.\<close>

fun string_of_nat :: "nat \<Rightarrow> string" where
  "string_of_nat n =
     (if n < 10 then [''0123456789'' ! n]
      else string_of_nat (n div 10) @ [''0123456789'' ! (n mod 10)])"

declare string_of_nat.simps [simp del]

text \<open>
  The own enumerable properties a spread copies out of an arbitrary value: those of an
  object, the indexed elements of an array, the indexed characters of a string, and
  nothing for \<open>null\<close>, a boolean or a number.
\<close>

definition own_entries :: "jsval \<Rightarrow> obj" where
  "own_entries v =
     (case v of
        JObj kvs \<Rightarrow> kvs
      | JArr xs \<Rightarrow> zip (map string_of_nat [0..<length xs]) xs
      | JStr s \<Rightarrow> zip (map string_of_nat [0..<length s]) (map (\<lambda>c. JStr [c]) s)
      | _ \<Rightarrow> [])"

fun join_comma :: "string list \<Rightarrow> string" where
  "join_comma [] = []"
| "join_comma [x] = x"
| "join_comma (x # y # ys) = x @ '','' @ join_comma (y # ys)"

text \<open>
  \<open>to_string\<close> is the conversion a template literal and \<open>URLSearchParams\<close> apply to a
  value; \<open>to_string_opt\<close> extends it to \<open>undefined\<close>.
\<close>

fun to_string :: "(real \<Rightarrow> string) \<Rightarrow> jsval \<Rightarrow> string" where
  "to_string nf JNull = ''null''"
| "to_string nf (JBool b) = (if b then ''true'' else ''false'')"
| "to_string nf (JNum r) = nf r"
| "to_string nf (JStr s) = s"
| "to_string nf (JArr xs) =
     join_comma (map (\<lambda>x. if x = JNull then [] else to_string nf x) xs)"
| "to_string nf (JObj kvs) = ''[object Object]''"

definition to_string_opt :: "(real \<Rightarrow> string) \<Rightarrow> jsval option \<Rightarrow> string" where
  "to_string_opt nf v = (case v of None \<Rightarrow> ''undefined'' | Some x \<Rightarrow> to_string nf x)"

text \<open>\<open>String.prototype.startsWith\<close>.\<close>

definition startsWith :: "string \<Rightarrow> string \<Rightarrow> bool" where
  "startsWith s p = (take (length p) s = p)"

text \<open>
  \<open>template.replace(pattern, replacement)\<close> with a string pattern: the first occurrence
  only, and \<open>$$\<close>, \<open>$&\<close>, \<open>$`\<close>, \<open>$'\<close> in the replacement stand for a dollar sign, the
  match, the text before it and the text after it.
\<close>

fun find_first :: "string \<Rightarrow> string \<Rightarrow> (string \<times> string) option" where
  "find_first pat [] = (if pat = [] then Some ([], []) else None)"
| "find_first pat (c # cs) =
     (if take (length pat) (c # cs) = pat then Some ([], drop (length pat) (c # cs))
      else map_option (\<lambda>(b, a). (c # b, a)) (find_first pat cs))"

fun expand_replacement :: "string \<Rightarrow> string \<Rightarrow> string \<Rightarrow> string \<Rightarrow> string" where
  "expand_replacement m b a [] = []"
| "expand_replacement m b a [c] = [c]"
| "expand_replacement m b a (c # d # r) =
     (if c = CHR ''$'' \<and> d = CHR ''$'' then CHR ''$'' # expand_replacement m b a r
      else if c = CHR ''$'' \<and> d = CHR ''&'' then m @ expand_replacement m b a r
      else if c = CHR ''$'' \<and> d = CHR 0x60 then b @ expand_replacement m b a r
      else if c = CHR ''$'' \<and> d = CHR 0x27 then a @ expand_replacement m b a r
      else c # expand_replacement m b a (d # r))"

definition js_replace :: "string \<Rightarrow> string \<Rightarrow> string \<Rightarrow> string" where
  "js_replace s pat rep =
     (case find_first pat s of
        None \<Rightarrow> s
      | Some (b, a) \<Rightarrow> b @ expand_replacement pat b a rep @ a)"


section \<open>Configuration\<close>

text \<open>
  \<open>TOAuth2Url\<close>, \<open>TOAuth2Provider\<close> and \<open>TOAuth2Profile\<close>. The extra parameters of an
  endpoint are a \<open>Record<string, string | number | boolean>\<close>.
\<close>

record oauth2_url =
  url :: string
  params :: obj

record provider =
  auth :: oauth2_url
  token :: oauth2_url
  profile :: oauth2_url
  clientId :: string
  clientSecret :: string

record oauth2_profile =
  scope :: "string list"
  provider :: provider

text \<open>
  \<open>globalProfiles\<close> is a JavaScript object, and \<open>resolveProvider\<close> asks it with the
  \<open>in\<close> operator, which also answers for the properties the object inherits. The
  registry is therefore the own properties (the configured profiles) together with the
  names the prototype chain answers for. For the object literal of the documentation
  (\<open>const profiles = { github: { ... } }\<close>) these are the properties of
  \<open>Object.prototype\<close>.
\<close>

record registry =
  own_profiles :: "(string \<times> oauth2_profile) list"
  inherited_keys :: "string list"

definition object_prototype_keys :: "string list" where
  "object_prototype_keys =
     [''constructor'', ''__defineGetter__'', ''__defineSetter__'', ''hasOwnProperty'',
      ''__lookupGetter__'', ''__lookupSetter__'', ''isPrototypeOf'',
      ''propertyIsEnumerable'', ''toString'', ''valueOf'', ''__proto__'',
      ''toLocaleString'']"

definition object_literal :: "(string \<times> oauth2_profile) list \<Rightarrow> registry" where
  "object_literal ps = \<lparr>own_profiles = ps, inherited_keys = object_prototype_keys\<rparr>"

text \<open>\<open>TPluginParams\<close> (the collaborators \<open>state\<close> and \<open>storage\<close> are in the environment below).\<close>

record plugin_params =
  p_profiles :: registry
  p_login :: "string option"
  p_authorized :: "string option"
  p_logout :: "string option"
  p_host :: "string option"
  p_prefix :: "string option"
  p_redirectTo :: "string option"

record config =
  cfg_profiles :: registry
  cfg_login :: string
  cfg_authorized :: string
  cfg_logout :: string
  cfg_host :: string
  cfg_prefix :: "string option"
  cfg_redirectTo :: string

text \<open>\<open>if (!x) { x = d }\<close>: \<open>undefined\<close> and the empty string are both falsy.\<close>

definition or_default :: "string option \<Rightarrow> string \<Rightarrow> string" where
  "or_default x d = (case x of None \<Rightarrow> d | Some s \<Rightarrow> if s = [] then d else s)"

definition oauth2_config :: "plugin_params \<Rightarrow> config" where
  "oauth2_config p =
     \<lparr>cfg_profiles = p_profiles p,
      cfg_login = or_default (p_login p) ''/login/:name'',
      cfg_authorized = or_default (p_authorized p) ''/login/:name/authorized'',
      cfg_logout = or_default (p_logout p) ''/logout/:name'',
      cfg_host = or_default (p_host p) ''localhost:3000'',
      cfg_prefix = p_prefix p,
      cfg_redirectTo = or_default (p_redirectTo p) ''/user/:name/profile''\<rparr>"

definition protocol :: "config \<Rightarrow> string" where
  "protocol cfg = (if startsWith (cfg_host cfg) ''localhost'' then ''http'' else ''https'')"

text \<open>
  What \<open>resolveProvider\<close> returns: the 404 response, a configured profile, or whatever
  the prototype chain holds under that name (a function of \<open>Object.prototype\<close>, which
  has neither a \<open>provider\<close> nor a \<open>scope\<close> property).
\<close>

datatype resolved =
    Response404
  | Profile oauth2_profile
  | Inherited

definition resolveProvider :: "registry \<Rightarrow> string \<Rightarrow> resolved" where
  "resolveProvider globalProfiles name =
     (if \<not> (name \<in> fst ` set (own_profiles globalProfiles)
             \<or> name \<in> set (inherited_keys globalProfiles))
      then Response404
      else (case map_of (own_profiles globalProfiles) name of
              Some p \<Rightarrow> Profile p
            | None \<Rightarrow> Inherited))"

definition buildUri :: "config \<Rightarrow> string \<Rightarrow> string \<Rightarrow> bool \<Rightarrow> string" where
  "buildUri cfg template name external =
     (let uri = js_replace template '':name'' name;
          pre = or_default (cfg_prefix cfg) []
      in if external then protocol cfg @ ''://'' @ cfg_host cfg @ pre @ uri
         else pre @ uri)"

definition buildLoginUri :: "config \<Rightarrow> string \<Rightarrow> bool \<Rightarrow> string" where
  "buildLoginUri cfg name external = buildUri cfg (cfg_login cfg) name external"

definition buildLogoutUri :: "config \<Rightarrow> string \<Rightarrow> bool \<Rightarrow> string" where
  "buildLogoutUri cfg name external = buildUri cfg (cfg_logout cfg) name external"

definition buildRedirectUri :: "config \<Rightarrow> string \<Rightarrow> string" where
  "buildRedirectUri cfg name = buildUri cfg (cfg_authorized cfg) name True"

definition buildRedirectToUri :: "config \<Rightarrow> string \<Rightarrow> string" where
  "buildRedirectToUri cfg name = buildUri cfg (cfg_redirectTo cfg) name True"

section \<open>Requests, collaborators and effects\<close>

text \<open>
  What a handler reads from the incoming request: the \<open>:name\<close> path parameter, the
  \<open>code\<close> and \<open>state\<close> query parameters and the \<open>authorize\<close> cookie (each absent or a
  string).
\<close>

record request =
  req_name :: string
  query_code :: "string option"
  query_state :: "string option"
  cookie_authorize :: "string option"

text \<open>
  An outgoing \<open>fetch\<close>. The body is kept as the entries of the \<open>URLSearchParams\<close> whose
  \<open>toString()\<close> the source sends; the form encoding itself is not modelled.
\<close>

record http_request =
  rq_url :: string
  rq_method :: string
  rq_headers :: "(string \<times> string) list"
  rq_body :: "(string \<times> string) list option"

text \<open>
  What the code reads from a \<open>Response\<close>: \<open>status\<close>, \<open>statusText\<close>,
  \<open>headers.get('Content-Type')\<close>, \<open>text()\<close> and \<open>json()\<close> (\<open>None\<close> when the body does not
  parse and \<open>json()\<close> rejects).
\<close>

record http_response =
  resp_status :: nat
  resp_statusText :: string
  resp_content_type :: "string option"
  resp_text :: string
  resp_json :: "jsval option"

text \<open>\<open>response.ok\<close>: the status is in the range 200 to 299.\<close>

definition resp_ok :: "http_response \<Rightarrow> bool" where
  "resp_ok r = (200 \<le> resp_status r \<and> resp_status r \<le> 299)"

text \<open>
  The collaborators and platform functions, each a function of the world \<open>'w\<close> it runs in
  (the state store, the token storage, the network, the clock) returning its answer and,
  where it may change something, the world after the call:
  \<^item> \<open>state.generate\<close>, \<open>state.check\<close> (\<open>OAuth2State\<close>), \<open>storage.set\<close>, \<open>storage.get\<close>
    (\<open>OAuth2Storage\<close>), \<open>jwt.sign\<close>, \<open>jwt.verify\<close> (\<open>None\<close> for \<open>false\<close>), \<open>fetch\<close>,
    \<open>Date.now()\<close> in milliseconds, \<open>Bun.env\<close>;
  \<^item> \<open>buildUrl\<close> and \<open>isTokenValid\<close> of \<open>./utils\<close>, whose code is not part of the sources
    at hand and which are therefore parameters;
  \<^item> \<open>decodeURIComponent\<close> (\<open>None\<close> when it throws \<open>URIError\<close>), \<open>btoa\<close> and the printing of
    numbers.
  A collaborator answers as its declared interface says; one that throws, and a \<open>fetch\<close>
  that rejects, are outside this model.
\<close>

record 'w env =
  state_generate :: "'w \<Rightarrow> request \<Rightarrow> string \<Rightarrow> string \<times> 'w"
  state_check :: "'w \<Rightarrow> request \<Rightarrow> string \<Rightarrow> string option \<Rightarrow> bool \<times> 'w"
  storage_set :: "'w \<Rightarrow> request \<Rightarrow> string \<Rightarrow> jsval \<Rightarrow> 'w"
  storage_get :: "'w \<Rightarrow> request \<Rightarrow> string \<Rightarrow> string \<Rightarrow> obj option \<times> 'w"
  jwt_sign :: "'w \<Rightarrow> jsval \<Rightarrow> string \<times> 'w"
  jwt_verify :: "'w \<Rightarrow> string option \<Rightarrow> obj option \<times> 'w"
  fetch :: "'w \<Rightarrow> http_request \<Rightarrow> http_response \<times> 'w"
  date_now :: "'w \<Rightarrow> int"
  bun_env :: "'w \<Rightarrow> string \<Rightarrow> string option"
  buildUrl :: "string \<Rightarrow> obj \<Rightarrow> string list \<Rightarrow> string"
  isTokenValid :: "'w \<Rightarrow> obj \<Rightarrow> bool"
  decodeURIComponent :: "string \<Rightarrow> string option"
  btoa :: "string \<Rightarrow> string"
  number_to_string :: "real \<Rightarrow> string"

text \<open>The options of a \<open>setCookie\<close> call (\<open>None\<close>: the option is not given).\<close>

record cookie_options =
  opt_expires :: "int option"
  opt_maxAge :: "jsval option"

definition no_options :: cookie_options where
  "no_options = \<lparr>opt_expires = None, opt_maxAge = None\<rparr>"

text \<open>
  Every call that reaches a collaborator or sets a cookie is recorded, in order. For
  \<open>setCookie\<close> the value \<open>None\<close> is the \<open>null\<close> the logout handler passes.
\<close>

datatype event =
    StateGenerate string
  | StateCheck string "string option"
  | Fetch http_request
  | StorageSet string jsval
  | StorageGet string string
  | StorageDelete string string
  | JwtSign jsval
  | JwtVerify "string option"
  | SetCookie string "string option" cookie_options

record 'w st =
  world :: 'w
  trace :: "event list"

datatype error =
    Error string
  | TypeError
  | URIError
  | SyntaxError

text \<open>
  How a handler ends: with a \<open>Response\<close> it built itself (\<open>Respond status statusText\<close>, the
  body empty), with the response \<open>redirect(url)\<close> of \<open>./utils\<close>, with a message after
  setting \<open>set.status\<close> and \<open>set.redirect\<close>, or by throwing.
\<close>

datatype outcome =
    Respond nat string
  | UtilRedirect string
  | Reply string string string
  | Throw error

definition do_state_generate :: "'w env \<Rightarrow> request \<Rightarrow> string \<Rightarrow> 'w st \<Rightarrow> string \<times> 'w st" where
  "do_state_generate e rq name s =
     (case state_generate e (world s) rq name of
        (r, w') \<Rightarrow> (r, \<lparr>world = w', trace = trace s @ [StateGenerate name]\<rparr>))"

definition do_state_check ::
  "'w env \<Rightarrow> request \<Rightarrow> string \<Rightarrow> string option \<Rightarrow> 'w st \<Rightarrow> bool \<times> 'w st" where
  "do_state_check e rq name cs s =
     (case state_check e (world s) rq name cs of
        (r, w') \<Rightarrow> (r, \<lparr>world = w', trace = trace s @ [StateCheck name cs]\<rparr>))"

definition do_storage_set :: "'w env \<Rightarrow> request \<Rightarrow> string \<Rightarrow> jsval \<Rightarrow> 'w st \<Rightarrow> 'w st" where
  "do_storage_set e rq name tok s =
     \<lparr>world = storage_set e (world s) rq name tok, trace = trace s @ [StorageSet name tok]\<rparr>"

definition do_storage_get ::
  "'w env \<Rightarrow> request \<Rightarrow> string \<Rightarrow> string \<Rightarrow> 'w st \<Rightarrow> obj option \<times> 'w st" where
  "do_storage_get e rq name ident s =
     (case storage_get e (world s) rq name ident of
        (r, w') \<Rightarrow> (r, \<lparr>world = w', trace = trace s @ [StorageGet name ident]\<rparr>))"

definition do_jwt_sign :: "'w env \<Rightarrow> jsval \<Rightarrow> 'w st \<Rightarrow> string \<times> 'w st" where
  "do_jwt_sign e payload s =
     (case jwt_sign e (world s) payload of
        (r, w') \<Rightarrow> (r, \<lparr>world = w', trace = trace s @ [JwtSign payload]\<rparr>))"

definition do_jwt_verify :: "'w env \<Rightarrow> string option \<Rightarrow> 'w st \<Rightarrow> obj option \<times> 'w st" where
  "do_jwt_verify e c s =
     (case jwt_verify e (world s) c of
        (r, w') \<Rightarrow> (r, \<lparr>world = w', trace = trace s @ [JwtVerify c]\<rparr>))"

definition do_fetch :: "'w env \<Rightarrow> http_request \<Rightarrow> 'w st \<Rightarrow> http_response \<times> 'w st" where
  "do_fetch e rq s =
     (case fetch e (world s) rq of
        (r, w') \<Rightarrow> (r, \<lparr>world = w', trace = trace s @ [Fetch rq]\<rparr>))"

definition setCookie :: "string \<Rightarrow> string option \<Rightarrow> cookie_options \<Rightarrow> 'w st \<Rightarrow> 'w st" where
  "setCookie name v opts s = s\<lparr>trace := trace s @ [SetCookie name v opts]\<rparr>"


section \<open>The three endpoints\<close>

text \<open>
  The login handler. With an inherited name \<open>provider\<close> is \<open>undefined\<close> and
  \<open>provider.clientId\<close>, the first property of \<open>authParams\<close>, throws before
  \<open>state.generate\<close> is reached.
\<close>

definition authParams :: "config \<Rightarrow> oauth2_profile \<Rightarrow> string \<Rightarrow> string \<Rightarrow> obj" where
  "authParams cfg p name generated =
     [(''client_id'', JStr (clientId (provider p))),
      (''redirect_uri'', JStr (buildRedirectUri cfg name)),
      (''response_type'', JStr ''code''),
      (''response_mode'', JStr ''query''),
      (''state'', JStr generated)]"

definition login_handler :: "'w env \<Rightarrow> config \<Rightarrow> request \<Rightarrow> 'w st \<Rightarrow> outcome \<times> 'w st" where
  "login_handler e cfg req s =
     (case resolveProvider (cfg_profiles cfg) (req_name req) of
        Response404 \<Rightarrow> (Respond 404 ''Not Found'', s)
      | Inherited \<Rightarrow> (Throw TypeError, s)
      | Profile p \<Rightarrow>
          (case do_state_generate e req (req_name req) s of
             (generated, s1) \<Rightarrow>
               (UtilRedirect
                  (buildUrl e (url (auth (provider p)))
                     (spread (authParams cfg p (req_name req) generated)
                        (params (auth (provider p))))
                     (scope p)),
                s1)))"

text \<open>The token request of the callback.\<close>

definition tokenParams :: "config \<Rightarrow> oauth2_profile \<Rightarrow> string \<Rightarrow> string \<Rightarrow> obj" where
  "tokenParams cfg p name code =
     [(''client_id'', JStr (clientId (provider p))),
      (''client_secret'', JStr (clientSecret (provider p))),
      (''redirect_uri'', JStr (buildRedirectUri cfg name)),
      (''grant_type'', JStr ''authorization_code''),
      (''code'', JStr code)]"

definition token_request :: "'w env \<Rightarrow> config \<Rightarrow> oauth2_profile \<Rightarrow> string \<Rightarrow> string \<Rightarrow> http_request" where
  "token_request e cfg p name code =
     \<lparr>rq_url = url (token (provider p)),
      rq_method = ''POST'',
      rq_headers =
        [(''Content-Type'', ''application/x-www-form-urlencoded''),
         (''Accept'', ''application/json''),
         (''Authorization'',
          ''Basic '' @ btoa e (clientId (provider p) @ '':'' @ clientSecret (provider p)))],
      rq_body =
        Some (map (\<lambda>(k, v). (k, to_string (number_to_string e) v))
                (spread (tokenParams cfg p name code) (params (token (provider p)))))\<rparr>"

text \<open>The message of the error thrown on a failed exchange.\<close>

definition upstream_error :: "http_response \<Rightarrow> error" where
  "upstream_error r =
     Error (string_of_nat (resp_status r) @ '': '' @ resp_statusText r @ '': '' @ resp_text r)"

definition json_content_type :: "http_response \<Rightarrow> bool" where
  "json_content_type r =
     (case resp_content_type r of
        None \<Rightarrow> False
      | Some ct \<Rightarrow> startsWith ct ''application/json'')"

text \<open>
  Lines 365 to 369: \<open>token.expires_in = token.expires_in ?? 3600\<close> (the default applies
  to \<open>undefined\<close> and to \<open>null\<close>) and \<open>token.created_at = Date.now() / 1000\<close>.
\<close>

definition default_expires_in :: "obj \<Rightarrow> jsval" where
  "default_expires_in t =
     (case get_prop t ''expires_in'' of
        None \<Rightarrow> JNum 3600
      | Some JNull \<Rightarrow> JNum 3600
      | Some v \<Rightarrow> v)"

definition stamp_token :: "int \<Rightarrow> obj \<Rightarrow> obj" where
  "stamp_token now t =
     set_prop ''created_at'' (JNum (real_of_int now / 1000))
       (set_prop ''expires_in'' (default_expires_in t) t)"

definition twitch_validate_request :: "'w env \<Rightarrow> obj \<Rightarrow> http_request" where
  "twitch_validate_request e t =
     \<lparr>rq_url = ''https://id.twitch.tv/oauth2/validate'',
      rq_method = ''GET'',
      rq_headers =
        [(''Authorization'',
          ''OAuth '' @ to_string_opt (number_to_string e) (get_prop t ''access_token''))],
      rq_body = None\<rparr>"

text \<open>
  Storing the token, signing it into the cookie and answering with the redirect. The
  source does not await \<open>storage.set\<close>: the call is made before \<open>jwt.sign\<close>, and that
  order is what the trace records.
\<close>

definition establish_session ::
  "'w env \<Rightarrow> config \<Rightarrow> request \<Rightarrow> obj \<Rightarrow> jsval option \<Rightarrow> 'w st \<Rightarrow> outcome \<times> 'w st" where
  "establish_session e cfg req stored max_age s =
     (let s1 = do_storage_set e req (req_name req) (JObj stored) s
      in case do_jwt_sign e (JObj stored) s1 of
           (signed, s2) \<Rightarrow>
             (Reply ''Found redirect'' ''Found'' (buildRedirectToUri cfg (req_name req)),
              setCookie ''authorize'' (Some signed)
                \<lparr>opt_expires = None, opt_maxAge = max_age\<rparr> s2))"

text \<open>
  What follows a successful exchange, from the parsed body on. The body is cast to
  \<open>TOAuth2AccessToken\<close>; assigning a property to \<open>null\<close> or to a primitive throws in a
  module, and an array body is not told apart from these.
\<close>

definition accept_token ::
  "'w env \<Rightarrow> config \<Rightarrow> request \<Rightarrow> jsval \<Rightarrow> 'w st \<Rightarrow> outcome \<times> 'w st" where
  "accept_token e cfg req parsed s =
     (case parsed of
        JObj t \<Rightarrow>
          (let tok = stamp_token (date_now e (world s)) t
           in if req_name req = ''twitch''
              then (case do_fetch e (twitch_validate_request e tok) s of
                      (response, s1) \<Rightarrow>
                        if resp_ok response
                        then (case resp_json response of
                                None \<Rightarrow> (Throw SyntaxError, s1)
                              | Some certificate \<Rightarrow>
                                  establish_session e cfg req
                                    (spread tok (own_entries certificate))
                                    (get_prop tok ''expires_in'') s1)
                        else (Throw (upstream_error response), s1))
              else establish_session e cfg req tok (get_prop tok ''expires_in'') s)
      | _ \<Rightarrow> (Throw TypeError, s))"

text \<open>
  The callback handler. \<open>state.check\<close> comes first; with an inherited name
  \<open>provider.clientId\<close> then throws; \<open>decodeURIComponent\<close> gets the \<open>code\<close> parameter
  (\<open>undefined\<close> when absent) and may throw.
\<close>

definition authorized_handler :: "'w env \<Rightarrow> config \<Rightarrow> request \<Rightarrow> 'w st \<Rightarrow> outcome \<times> 'w st" where
  "authorized_handler e cfg req s =
     (case resolveProvider (cfg_profiles cfg) (req_name req) of
        Response404 \<Rightarrow> (Respond 404 ''Not Found'', s)
      | context \<Rightarrow>
          (case do_state_check e req (req_name req) (query_state req) s of
             (passed, s1) \<Rightarrow>
               if \<not> passed then (Throw (Error ''State mismatch''), s1)
               else (case context of
                       Profile p \<Rightarrow>
                         (case decodeURIComponent e
                                 (case query_code req of None \<Rightarrow> ''undefined'' | Some c \<Rightarrow> c) of
                            None \<Rightarrow> (Throw URIError, s1)
                          | Some code \<Rightarrow>
                              (case do_fetch e (token_request e cfg p (req_name req) code) s1 of
                                 (response, s2) \<Rightarrow>
                                   if \<not> resp_ok response \<or> \<not> json_content_type response
                                   then (Throw (upstream_error response), s2)
                                   else (case resp_json response of
                                           None \<Rightarrow> (Throw SyntaxError, s2)
                                         | Some parsed \<Rightarrow> accept_token e cfg req parsed s2)))
                     | _ \<Rightarrow> (Throw TypeError, s1))))"

text \<open>The logout handler does not look at what \<open>resolveProvider\<close> found.\<close>

definition logout_handler :: "'w env \<Rightarrow> config \<Rightarrow> request \<Rightarrow> 'w st \<Rightarrow> outcome \<times> 'w st" where
  "logout_handler e cfg req s =
     (case resolveProvider (cfg_profiles cfg) (req_name req) of
        Response404 \<Rightarrow> (Respond 404 ''Not Found'', s)
      | _ \<Rightarrow>
          (Reply ''Logged out!'' ''OK'' (buildRedirectToUri cfg (req_name req)),
           setCookie ''authorize'' None
             \<lparr>opt_expires = Some (date_now e (world s)), opt_maxAge = Some (JNum 0)\<rparr> s))"

section \<open>The derived request capability\<close>

definition twitch_refresh_request :: "'w env \<Rightarrow> 'w \<Rightarrow> obj \<Rightarrow> http_request" where
  "twitch_refresh_request e w t =
     \<lparr>rq_url = ''https://id.twitch.tv/oauth2/token'',
      rq_method = ''POST'',
      rq_headers =
        [(''Content-Type'', ''application/x-www-form-urlencoded''),
         (''Accept'', ''application/json'')],
      rq_body =
        Some [(''client_id'',
               case bun_env e w ''TWITCH_OAUTH_CLIENT_ID'' of None \<Rightarrow> ''undefined'' | Some x \<Rightarrow> x),
              (''client_secret'',
               case bun_env e w ''TWITCH_CLIENT_SECRET'' of None \<Rightarrow> ''undefined'' | Some x \<Rightarrow> x),
              (''refresh_token'',
               to_string_opt (number_to_string e) (get_prop t ''refresh_token'')),
              (''grant_type'', ''refresh_token'')]\<rparr>"

text \<open>
  The twitch branch of \<open>authorized\<close>: every path through it returns, so the profiles
  after \<open>twitch\<close> are not looked at.
\<close>

definition twitch_check :: "'w env \<Rightarrow> request \<Rightarrow> obj \<Rightarrow> 'w st \<Rightarrow> (error + bool) \<times> 'w st" where
  "twitch_check e req t s =
     (case do_fetch e (twitch_validate_request e t) s of
        (response, s1) \<Rightarrow>
          if resp_ok response then (Inr True, s1)
          else (case do_fetch e (twitch_refresh_request e (world s1) t) s1 of
                  (newTokenResponse, s2) \<Rightarrow>
                    if resp_ok newTokenResponse
                    then (case resp_json newTokenResponse of
                            None \<Rightarrow> (Inl SyntaxError, s2)
                          | Some newToken \<Rightarrow>
                              (let s3 = do_storage_set e req ''twitch'' newToken s2
                               in case do_jwt_sign e newToken s3 of
                                    (signed, s4) \<Rightarrow>
                                      (Inr True,
                                       setCookie ''authorize'' (Some signed) no_options s4)))
                    else (Inr False, s2)))"

fun authorized :: "'w env \<Rightarrow> request \<Rightarrow> string list \<Rightarrow> 'w st \<Rightarrow> (error + bool) \<times> 'w st" where
  "authorized e req [] s = (Inr True, s)"
| "authorized e req (p # profiles) s =
     (case do_jwt_verify e (cookie_authorize req) s of
        (None, s1) \<Rightarrow> (Inr False, s1)
      | (Some t, s1) \<Rightarrow>
          if p = ''twitch'' then twitch_check e req t s1
          else if \<not> isTokenValid e (world s1) t then (Inr False, s1)
          else authorized e req profiles s1)"

definition tokenHeaders ::
  "'w env \<Rightarrow> request \<Rightarrow> string \<Rightarrow> string \<Rightarrow> 'w st \<Rightarrow> (string \<times> string) list \<times> 'w st" where
  "tokenHeaders e req p ident s =
     (case do_storage_get e req p ident s of
        (t, s1) \<Rightarrow>
          ([(''Authorization'',
             ''Bearer '' @
               to_string_opt (number_to_string e)
                 (case t of None \<Rightarrow> None | Some tok \<Rightarrow> get_prop tok ''access_token''))],
           s1))"


section \<open>A concrete deployment\<close>

text \<open>
  One configuration and one environment on which the statements below are evaluated.
  The world is the clock, in milliseconds; the state store accepts the state
  \<open>st-1\<close>; the storage is empty; the cookie \<open>cookie-1\<close> verifies to a token issued at
  second 1000 for one hour.
\<close>

definition github :: oauth2_profile where
  "github =
     \<lparr>scope = [''user''],
      provider =
        \<lparr>auth = \<lparr>url = ''https://github.com/login/oauth/authorize'', params = []\<rparr>,
         token = \<lparr>url = ''https://github.com/login/oauth/access_token'', params = []\<rparr>,
         profile = \<lparr>url = ''https://api.github.com/user'', params = []\<rparr>,
         clientId = ''gh-id'',
         clientSecret = ''gh-secret''\<rparr>\<rparr>"

definition twitch :: oauth2_profile where
  "twitch =
     \<lparr>scope = [''user:read:email''],
      provider =
        \<lparr>auth = \<lparr>url = ''https://id.twitch.tv/oauth2/authorize'', params = []\<rparr>,
         token = \<lparr>url = ''https://id.twitch.tv/oauth2/token'', params = []\<rparr>,
         profile = \<lparr>url = ''https://api.twitch.tv/helix/users'', params = []\<rparr>,
         clientId = ''tw-id'',
         clientSecret = ''tw-secret''\<rparr>\<rparr>"

text \<open>A provider whose extra authorization parameters name \<open>client_id\<close>.\<close>

definition overriding :: oauth2_profile where
  "overriding =
     \<lparr>scope = [''user''],
      provider =
        \<lparr>auth = \<lparr>url = ''https://idp.example/authorize'',
                 params = [(''client_id'', JStr ''extra-id''), (''prompt'', JStr ''consent'')]\<rparr>,
         token = \<lparr>url = ''https://idp.example/token'', params = []\<rparr>,
         profile = \<lparr>url = ''https://idp.example/me'', params = []\<rparr>,
         clientId = ''real-id'',
         clientSecret = ''real-secret''\<rparr>\<rparr>"

definition sample_config :: config where
  "sample_config =
     oauth2_config
       \<lparr>p_profiles =
          object_literal [(''github'', github), (''twitch'', twitch), (''custom'', overriding)],
        p_login = None, p_authorized = None, p_logout = None, p_host = None,
        p_prefix = None, p_redirectTo = None\<rparr>"

text \<open>
  Modelled from the spec: \<open>buildUrl\<close> of \<open>./utils\<close>, which is not among the sources. It
  puts the merged parameters into the query of the authorization URL and appends the
  scope; here the scope is joined by spaces and nothing is percent-encoded.
\<close>

fun join_with :: "string \<Rightarrow> string list \<Rightarrow> string" where
  "join_with sep [] = []"
| "join_with sep [x] = x"
| "join_with sep (x # y # ys) = x @ sep @ join_with sep (y # ys)"

definition sample_buildUrl :: "string \<Rightarrow> obj \<Rightarrow> string list \<Rightarrow> string" where
  "sample_buildUrl u ps sc =
     u @ ''?'' @
     join_with ''&''
       (map (\<lambda>(k, v). k @ ''='' @ to_string (\<lambda>r. ''0'') v) ps @ [''scope='' @ join_with '' '' sc])"

text \<open>
  Modelled from the spec: \<open>isTokenValid\<close> of \<open>./utils\<close>, which is not among the sources:
  \<open>now < created_at + expires_in\<close> in seconds, a token without expiry information being
  valid.
\<close>

definition sample_isTokenValid :: "nat \<Rightarrow> obj \<Rightarrow> bool" where
  "sample_isTokenValid now t =
     (case (get_prop t ''created_at'', get_prop t ''expires_in'') of
        (Some (JNum c), Some (JNum x)) \<Rightarrow> real now / 1000 < c + x
      | _ \<Rightarrow> True)"

definition session_token :: obj where
  "session_token =
     [(''access_token'', JStr ''AT-1''), (''refresh_token'', JStr ''RT-1''),
      (''expires_in'', JNum 3600), (''created_at'', JNum 1000)]"

definition sample_env :: "(http_request \<Rightarrow> http_response) \<Rightarrow> nat env" where
  "sample_env net =
     \<lparr>state_generate = (\<lambda>w rq name. (''st-1'', w)),
      state_check = (\<lambda>w rq name cs. (cs = Some ''st-1'', w)),
      storage_set = (\<lambda>w rq name tok. w),
      storage_get = (\<lambda>w rq name ident. (None, w)),
      jwt_sign = (\<lambda>w payload. (''signed'', w)),
      jwt_verify = (\<lambda>w c. (if c = Some ''cookie-1'' then Some session_token else None, w)),
      fetch = (\<lambda>w rq. (net rq, w)),
      date_now = (\<lambda>w. int w),
      bun_env = (\<lambda>w k. None),
      buildUrl = sample_buildUrl,
      isTokenValid = sample_isTokenValid,
      decodeURIComponent = (\<lambda>c. Some c),
      btoa = (\<lambda>x. ''b64:'' @ x),
      number_to_string = (\<lambda>r. ''0'')\<rparr>"

definition json_response :: "nat \<Rightarrow> string \<Rightarrow> jsval \<Rightarrow> http_response" where
  "json_response st tx v =
     \<lparr>resp_status = st, resp_statusText = tx,
      resp_content_type = Some ''application/json; charset=utf-8'',
      resp_text = ''{...}'', resp_json = Some v\<rparr>"

definition start :: "nat \<Rightarrow> nat st" where
  "start now = \<lparr>world = now, trace = []\<rparr>"

definition callback :: "string \<Rightarrow> string \<Rightarrow> request" where
  "callback name st =
     \<lparr>req_name = name, query_code = Some ''abc'', query_state = Some st,
      cookie_authorize = None\<rparr>"

definition visit :: "string \<Rightarrow> string option \<Rightarrow> request" where
  "visit name c =
     \<lparr>req_name = name, query_code = None, query_state = None, cookie_authorize = c\<rparr>"


text \<open>
  Three networks: one where the token endpoint answers with a token that carries no
  \<open>expires_in\<close> and the validation endpoint of Twitch accepts it; one that refuses
  everything; one where the validation endpoint refuses and the token endpoint answers
  the refresh.
\<close>

definition net_ok :: "http_request \<Rightarrow> http_response" where
  "net_ok rq =
     (if rq_url rq = ''https://id.twitch.tv/oauth2/validate''
      then json_response 200 ''OK''
             (JObj [(''client_id'', JStr ''tw-id''), (''login'', JStr ''u1''),
                    (''expires_in'', JNum 5000)])
      else json_response 200 ''OK''
             (JObj [(''access_token'', JStr ''X''), (''token_type'', JStr ''bearer'')]))"

definition net_forbidden :: "http_request \<Rightarrow> http_response" where
  "net_forbidden rq =
     \<lparr>resp_status = 403, resp_statusText = ''Forbidden'',
      resp_content_type = Some ''application/json'', resp_text = ''denied'',
      resp_json = None\<rparr>"

definition net_refresh :: "http_request \<Rightarrow> http_response" where
  "net_refresh rq =
     (if rq_url rq = ''https://id.twitch.tv/oauth2/validate''
      then \<lparr>resp_status = 401, resp_statusText = ''Unauthorized'',
            resp_content_type = Some ''application/json'', resp_text = ''{}'',
            resp_json = Some (JObj [])\<rparr>
      else json_response 200 ''OK''
             (JObj [(''access_token'', JStr ''AT-2''), (''refresh_token'', JStr ''RT-2'')]))"

text \<open>The calls a handler added to the trace between two states.\<close>

definition performed :: "'w st \<Rightarrow> 'w st \<Rightarrow> event list" where
  "performed s s' = drop (length (trace s)) (trace s')"

section \<open>Unfolding\<close>

lemmas call_defs =
  do_state_generate_def do_state_check_def do_storage_set_def do_storage_get_def
  do_jwt_sign_def do_jwt_verify_def do_fetch_def setCookie_def

lemmas sample_defs =
  sample_config_def oauth2_config_def object_literal_def object_prototype_keys_def
  or_default_def visit_def callback_def start_def sample_env_def json_response_def
  github_def twitch_def overriding_def session_token_def net_ok_def net_forbidden_def
  net_refresh_def sample_buildUrl_def sample_isTokenValid_def

lemmas uri_defs =
  buildRedirectToUri_def buildRedirectUri_def buildUri_def js_replace_def protocol_def
  startsWith_def

lemmas handler_defs =
  login_handler_def authorized_handler_def logout_handler_def accept_token_def
  establish_session_def twitch_check_def tokenHeaders_def token_request_def
  tokenParams_def authParams_def twitch_validate_request_def twitch_refresh_request_def
  stamp_token_def default_expires_in_def upstream_error_def json_content_type_def
  resp_ok_def resolveProvider_def no_options_def

lemmas object_defs = get_prop_def set_prop_def spread_def own_entries_def to_string_opt_def

section \<open>Objects\<close>

lemma map_of_overwrite:
  "map_of (map (\<lambda>(k', v'). if k' = k then (k', v) else (k', v')) ob) x =
     (if x = k then (if k \<in> fst ` set ob then Some v else None) else map_of ob x)"
  by (induction ob) force+

lemma get_prop_Nil: "get_prop [] x = None"
  by (simp add: get_prop_def)

lemma get_prop_Cons: "get_prop ((k, v) # ob) x = (if x = k then Some v else get_prop ob x)"
  by (simp add: get_prop_def)

lemma get_prop_set_prop:
  "get_prop (set_prop k v ob) x = (if x = k then Some v else get_prop ob x)"
proof (cases "k \<in> fst ` set ob")
  case True
  then show ?thesis
    by (simp add: get_prop_def set_prop_def map_of_overwrite)
next
  case False
  then have "map_of ob k = None" by (simp add: map_of_eq_None_iff)
  with False show ?thesis
    by (simp add: get_prop_def set_prop_def map_add_def split: option.splits)
qed

text \<open>On a common key the spread keeps the value of its second argument.\<close>

lemma get_prop_spread:
  "distinct (map fst b) \<Longrightarrow>
   get_prop (spread a b) k = (case get_prop b k of Some v \<Rightarrow> Some v | None \<Rightarrow> get_prop a k)"
  unfolding spread_def
proof (induction b arbitrary: a)
  case Nil
  then show ?case by (simp add: get_prop_Nil)
next
  case (Cons x b)
  obtain k' v' where x: "x = (k', v')" by (cases x)
  from Cons.prems x have fresh: "k' \<notin> fst ` set b" and d: "distinct (map fst b)" by auto
  from fresh have none: "get_prop b k' = None"
    by (simp add: get_prop_def map_of_eq_None_iff)
  show ?case
    using Cons.IH [OF d, of "set_prop k' v' a"] none
    by (auto simp: x get_prop_set_prop get_prop_Cons split: option.splits)
qed

lemma get_prop_stamp_token:
  "get_prop (stamp_token now t) k =
     (if k = ''created_at'' then Some (JNum (real_of_int now / 1000))
      else if k = ''expires_in'' then Some (default_expires_in t)
      else get_prop t k)"
  by (simp add: stamp_token_def get_prop_set_prop)

lemma string_of_nat_403: "string_of_nat 403 = ''403''"
  by (simp add: string_of_nat.simps)


section \<open>The callback: state check before token exchange\<close>

lemma establish_session_appends:
  "\<exists>evs. trace (snd (establish_session e cfg req stored ma s)) = trace s @ evs"
  by (simp add: establish_session_def call_defs Let_def split: prod.splits)

lemma accept_token_appends:
  "\<exists>evs. trace (snd (accept_token e cfg req parsed s)) = trace s @ evs"
proof (cases parsed)
  case (JObj t)
  let ?tok = "stamp_token (date_now e (world s)) t"
  show ?thesis
  proof (cases "req_name req = ''twitch''")
    case False
    with JObj show ?thesis
      by (simp add: accept_token_def Let_def establish_session_appends)
  next
    case True
    obtain r w1 where f: "fetch e (world s) (twitch_validate_request e ?tok) = (r, w1)"
      by (cases "fetch e (world s) (twitch_validate_request e ?tok)")
    show ?thesis
    proof (cases "resp_ok r \<and> resp_json r \<noteq> None")
      case False
      with JObj True f show ?thesis
        by (auto simp: accept_token_def Let_def do_fetch_def split: option.splits)
    next
      case ok: True
      then obtain c where c: "resp_json r = Some c" by auto
      define s1 where "s1 = \<lparr>world = w1, trace = trace s @ [Fetch (twitch_validate_request e ?tok)]\<rparr>"
      obtain evs where
        "trace (snd (establish_session e cfg req (spread ?tok (own_entries c))
                       (get_prop ?tok ''expires_in'') s1)) = trace s1 @ evs"
        using establish_session_appends by blast
      with JObj True f ok c show ?thesis
        by (simp add: accept_token_def Let_def do_fetch_def s1_def)
    qed
  qed
qed (simp_all add: accept_token_def)

lemma callback_trace:
  assumes reg: "resolveProvider (cfg_profiles cfg) (req_name req) = Profile p"
  shows "\<exists>evs. trace (snd (authorized_handler e cfg req s)) =
           trace s @ StateCheck (req_name req) (query_state req) # evs"
proof -
  obtain b w1 where chk: "state_check e (world s) req (req_name req) (query_state req) = (b, w1)"
    by (cases "state_check e (world s) req (req_name req) (query_state req)")
  define s1 where "s1 = \<lparr>world = w1, trace = trace s @ [StateCheck (req_name req) (query_state req)]\<rparr>"
  show ?thesis
  proof (cases b)
    case False
    with reg chk show ?thesis
      by (simp add: authorized_handler_def do_state_check_def)
  next
    case b: True
    show ?thesis
    proof (cases "decodeURIComponent e (case query_code req of None \<Rightarrow> ''undefined'' | Some c \<Rightarrow> c)")
      case None
      with reg chk b show ?thesis
        by (simp add: authorized_handler_def do_state_check_def)
    next
      case (Some code)
      obtain r w2 where f: "fetch e w1 (token_request e cfg p (req_name req) code) = (r, w2)"
        by (cases "fetch e w1 (token_request e cfg p (req_name req) code)")
      define s2 where "s2 = \<lparr>world = w2, trace = trace s1 @ [Fetch (token_request e cfg p (req_name req) code)]\<rparr>"
      show ?thesis
      proof (cases "resp_ok r \<and> json_content_type r \<and> resp_json r \<noteq> None")
        case False
        with reg chk b Some f show ?thesis
          by (auto simp: authorized_handler_def do_state_check_def do_fetch_def split: option.splits)
      next
        case True
        then obtain parsed where parsed: "resp_json r = Some parsed" by auto
        obtain evs where "trace (snd (accept_token e cfg req parsed s2)) = trace s2 @ evs"
          using accept_token_appends by blast
        with reg chk b Some f True parsed show ?thesis
          by (simp add: authorized_handler_def do_state_check_def do_fetch_def s1_def s2_def)
      qed
    qed
  qed
qed

text \<open>
  C1. On the callback of a registered profile, when \<open>state.check\<close> answers \<open>false\<close> the
  handler throws \<open>State mismatch\<close> and the state check is the only call it made: no
  request went to the token endpoint. Whenever the handler did send a request, the state
  check had answered \<open>true\<close> and was the first call.
\<close>

theorem state_mismatch_stops_callback:
  assumes reg: "resolveProvider (cfg_profiles cfg) (req_name req) = Profile p"
  shows "(\<not> fst (state_check e (world s) req (req_name req) (query_state req)) \<longrightarrow>
            fst (authorized_handler e cfg req s) = Throw (Error ''State mismatch'') \<and>
            performed s (snd (authorized_handler e cfg req s)) =
              [StateCheck (req_name req) (query_state req)]) \<and>
         ((\<exists>rq. Fetch rq \<in> set (performed s (snd (authorized_handler e cfg req s)))) \<longrightarrow>
            fst (state_check e (world s) req (req_name req) (query_state req)) \<and>
            hd (performed s (snd (authorized_handler e cfg req s))) =
              StateCheck (req_name req) (query_state req))"
proof -
  obtain b w1 where chk: "state_check e (world s) req (req_name req) (query_state req) = (b, w1)"
    by (cases "state_check e (world s) req (req_name req) (query_state req)")
  obtain evs where evs: "trace (snd (authorized_handler e cfg req s)) =
           trace s @ StateCheck (req_name req) (query_state req) # evs"
    using callback_trace [OF reg] by blast
  have first: "hd (performed s (snd (authorized_handler e cfg req s))) =
              StateCheck (req_name req) (query_state req)"
    by (simp add: performed_def evs)
  show ?thesis
  proof (cases b)
    case False
    with reg chk show ?thesis
      by (simp add: authorized_handler_def do_state_check_def performed_def)
  next
    case True
    with chk first show ?thesis by simp
  qed
qed

lemma sample_github:
  "resolveProvider (cfg_profiles sample_config) ''github'' = Profile github"
  by (simp add: resolveProvider_def sample_defs)

theorem state_mismatch_stops_callback_witness:
  "resolveProvider (cfg_profiles sample_config) ''github'' = Profile github \<and>
   \<not> fst (state_check (sample_env net_ok) 0 (callback ''github'' ''bad'') ''github'' (Some ''bad'')) \<and>
   fst (authorized_handler (sample_env net_ok) sample_config (callback ''github'' ''bad'') (start 0)) =
     Throw (Error ''State mismatch'') \<and>
   performed (start 0)
     (snd (authorized_handler (sample_env net_ok) sample_config (callback ''github'' ''bad'') (start 0))) =
     [StateCheck ''github'' (Some ''bad'')] \<and>
   Fetch (token_request (sample_env net_ok) sample_config github ''github'' ''abc'') \<in>
     set (performed (start 0)
       (snd (authorized_handler (sample_env net_ok) sample_config (callback ''github'' ''st-1'') (start 0)))) \<and>
   fst (state_check (sample_env net_ok) 0 (callback ''github'' ''st-1'') ''github'' (Some ''st-1'')) \<and>
   hd (performed (start 0)
     (snd (authorized_handler (sample_env net_ok) sample_config (callback ''github'' ''st-1'') (start 0)))) =
     StateCheck ''github'' (Some ''st-1'')"
proof -
  have reg2: "resolveProvider (cfg_profiles sample_config) (req_name (callback ''github'' ''st-1'')) =
               Profile github"
    by (simp add: sample_github callback_def)
  have sent: "Fetch (token_request (sample_env net_ok) sample_config github ''github'' ''abc'') \<in>
     set (performed (start 0)
       (snd (authorized_handler (sample_env net_ok) sample_config (callback ''github'' ''st-1'') (start 0))))"
    by (simp add: performed_def authorized_handler_def accept_token_def establish_session_def
        call_defs sample_github callback_def start_def sample_env_def net_ok_def json_response_def
        resp_ok_def json_content_type_def startsWith_def Let_def)
  from state_mismatch_stops_callback [OF reg2, of "sample_env net_ok" "start 0"] sent
  have good: "fst (state_check (sample_env net_ok) (world (start 0)) (callback ''github'' ''st-1'')
               (req_name (callback ''github'' ''st-1'')) (query_state (callback ''github'' ''st-1''))) \<and>
     hd (performed (start 0)
       (snd (authorized_handler (sample_env net_ok) sample_config (callback ''github'' ''st-1'') (start 0)))) =
     StateCheck (req_name (callback ''github'' ''st-1'')) (query_state (callback ''github'' ''st-1''))"
    by blast
  have reg: "resolveProvider (cfg_profiles sample_config) (req_name (callback ''github'' ''bad'')) =
               Profile github"
    by (simp add: sample_github callback_def)
  have no: "\<not> fst (state_check (sample_env net_ok) (world (start 0)) (callback ''github'' ''bad'')
               (req_name (callback ''github'' ''bad'')) (query_state (callback ''github'' ''bad'')))"
    by (simp add: sample_env_def callback_def)
  from state_mismatch_stops_callback [OF reg, of "sample_env net_ok" "start 0"] no
  have "fst (authorized_handler (sample_env net_ok) sample_config (callback ''github'' ''bad'') (start 0)) =
          Throw (Error ''State mismatch'') \<and>
        performed (start 0)
          (snd (authorized_handler (sample_env net_ok) sample_config (callback ''github'' ''bad'') (start 0))) =
          [StateCheck (req_name (callback ''github'' ''bad'')) (query_state (callback ''github'' ''bad''))]"
    by blast
  with no sent good show ?thesis
    by (simp add: sample_github callback_def start_def)
qed

section \<open>The request capability without profiles\<close>

text \<open>
  C9. \<open>authorized()\<close> without any profile returns \<open>true\<close> and leaves the world and the
  trace as they were: nothing is verified, stored or fetched.
\<close>

theorem authorized_no_profiles: "authorized e req [] s = (Inr True, s)"
  by simp

theorem authorized_no_profiles_witness:
  "authorized (sample_env net_forbidden) (visit ''home'' None) [] (start 0) = (Inr True, start 0)"
  using authorized_no_profiles [of "sample_env net_forbidden" "visit ''home'' None" "start 0"]
  by simp


section \<open>The callback: a failed exchange\<close>

text \<open>
  C5. On the callback of a registered profile whose state check passed, when the token
  endpoint answers with a status outside 200 to 299, or with a \<open>Content-Type\<close> that is
  absent or does not start with \<open>application/json\<close>, the handler throws an error whose
  message is the status code, the status text and the body text of that answer, joined by
  a colon and a space. The state check and the token request are the only calls made:
  nothing is stored, nothing is signed and no cookie is set.
\<close>

theorem exchange_failure_is_fatal:
  assumes reg: "resolveProvider (cfg_profiles cfg) (req_name req) = Profile p"
    and chk: "state_check e (world s) req (req_name req) (query_state req) = (True, w1)"
    and dec: "decodeURIComponent e (case query_code req of None \<Rightarrow> ''undefined'' | Some c \<Rightarrow> c) =
                Some code"
    and f: "fetch e w1 (token_request e cfg p (req_name req) code) = (r, w2)"
    and bad: "resp_status r < 200 \<or> 299 < resp_status r \<or> \<not> json_content_type r"
  shows "authorized_handler e cfg req s =
           (Throw (Error (string_of_nat (resp_status r) @ '': '' @ resp_statusText r @ '': '' @
                          resp_text r)),
            \<lparr>world = w2,
             trace = trace s @ [StateCheck (req_name req) (query_state req),
                                Fetch (token_request e cfg p (req_name req) code)]\<rparr>)"
proof -
  from bad have "\<not> resp_ok r \<or> \<not> json_content_type r"
    by (auto simp: resp_ok_def)
  with reg chk dec f show ?thesis
    by (auto simp: authorized_handler_def do_state_check_def do_fetch_def upstream_error_def)
qed

theorem exchange_failure_is_fatal_witness:
  "resp_status (net_forbidden (token_request (sample_env net_forbidden) sample_config github
      ''github'' ''abc'')) = 403 \<and>
   authorized_handler (sample_env net_forbidden) sample_config (callback ''github'' ''st-1'')
     (start 0) =
     (Throw (Error ''403: Forbidden: denied''),
      \<lparr>world = 0,
       trace = [StateCheck ''github'' (Some ''st-1''),
                Fetch (token_request (sample_env net_forbidden) sample_config github
                         ''github'' ''abc'')]\<rparr>)"
proof -
  let ?e = "sample_env net_forbidden"
  let ?req = "callback ''github'' ''st-1''"
  have reg: "resolveProvider (cfg_profiles sample_config) (req_name ?req) = Profile github"
    by (simp add: sample_github callback_def)
  have chk: "state_check ?e (world (start 0)) ?req (req_name ?req) (query_state ?req) = (True, 0)"
    by (simp add: sample_env_def callback_def start_def)
  have dec: "decodeURIComponent ?e (case query_code ?req of None \<Rightarrow> ''undefined'' | Some c \<Rightarrow> c) =
               Some ''abc''"
    by (simp add: sample_env_def callback_def)
  have f: "fetch ?e 0 (token_request ?e sample_config github (req_name ?req) ''abc'') =
             (net_forbidden (token_request ?e sample_config github (req_name ?req) ''abc''), 0)"
    by (simp add: sample_env_def)
  have bad: "resp_status (net_forbidden (token_request ?e sample_config github (req_name ?req) ''abc'')) < 200
      \<or> 299 < resp_status (net_forbidden (token_request ?e sample_config github (req_name ?req) ''abc''))
      \<or> \<not> json_content_type (net_forbidden (token_request ?e sample_config github (req_name ?req) ''abc''))"
    by (simp add: net_forbidden_def)
  from exchange_failure_is_fatal [OF reg chk dec f bad] show ?thesis
    by (simp add: net_forbidden_def callback_def start_def string_of_nat_403)
qed

section \<open>Logout\<close>

text \<open>
  C6. For a registered profile the logout handler sets the \<open>authorize\<close> cookie to \<open>null\<close>
  with \<open>maxAge\<close> 0 and an expiry equal to the clock at the time of the call, sets the
  redirect to the configured destination and answers \<open>Logged out!\<close>. Setting the cookie
  is the only call it makes and the world it leaves is the world it found: the token
  storage is not asked for anything, and nothing depends on the cookie the request
  carried.
\<close>

theorem logout_clears_cookie_only:
  assumes reg: "resolveProvider (cfg_profiles cfg) (req_name req) = Profile p"
  shows "logout_handler e cfg req s =
           (Reply ''Logged out!'' ''OK'' (buildRedirectToUri cfg (req_name req)),
            \<lparr>world = world s,
             trace = trace s @
               [SetCookie ''authorize'' None
                  \<lparr>opt_expires = Some (date_now e (world s)), opt_maxAge = Some (JNum 0)\<rparr>]\<rparr>)"
  using reg by (simp add: logout_handler_def setCookie_def)

theorem logout_clears_cookie_only_witness:
  "resolveProvider (cfg_profiles sample_config) ''github'' = Profile github \<and>
   logout_handler (sample_env net_ok) sample_config (visit ''github'' None) (start 7000) =
     (Reply ''Logged out!'' ''OK'' ''http://localhost:3000/user/github/profile'',
      \<lparr>world = 7000,
       trace = [SetCookie ''authorize'' None
                  \<lparr>opt_expires = Some 7000, opt_maxAge = Some (JNum 0)\<rparr>]\<rparr>)"
proof -
  have reg: "resolveProvider (cfg_profiles sample_config) (req_name (visit ''github'' None)) =
               Profile github"
    by (simp add: sample_github visit_def)
  have dest: "buildRedirectToUri sample_config ''github'' =
                ''http://localhost:3000/user/github/profile''"
    by (simp add: uri_defs sample_config_def oauth2_config_def or_default_def)
  from logout_clears_cookie_only [OF reg, of "sample_env net_ok" "start 7000"] show ?thesis
    by (simp add: sample_github dest visit_def start_def sample_env_def)
qed

section \<open>The bearer header\<close>

text \<open>
  C8. \<open>tokenHeaders\<close> asks the storage once and returns the single header
  \<open>Authorization\<close>, whose value is \<open>Bearer\<close>, a space, and the printed \<open>access_token\<close> of
  the stored token; when the storage has no token the value is \<open>Bearer undefined\<close>. It
  has no failing path of its own.
\<close>

theorem tokenHeaders_bearer:
  assumes got: "storage_get e (world s) req p ident = (t, w')"
  shows "tokenHeaders e req p ident s =
           ([(''Authorization'',
              ''Bearer '' @
                (case t of
                   None \<Rightarrow> ''undefined''
                 | Some tok \<Rightarrow> to_string_opt (number_to_string e) (get_prop tok ''access_token'')))],
            \<lparr>world = w', trace = trace s @ [StorageGet p ident]\<rparr>)"
  using got
  by (simp add: tokenHeaders_def do_storage_get_def to_string_opt_def split: option.splits)

theorem tokenHeaders_bearer_witness:
  "storage_get (sample_env net_ok) 0 (visit ''home'' None) ''github'' ''user-1'' = (None, 0) \<and>
   tokenHeaders (sample_env net_ok) (visit ''home'' None) ''github'' ''user-1'' (start 0) =
     ([(''Authorization'', ''Bearer undefined'')],
      \<lparr>world = 0, trace = [StorageGet ''github'' ''user-1'']\<rparr>)"
proof -
  have got: "storage_get (sample_env net_ok) (world (start 0)) (visit ''home'' None) ''github''
               ''user-1'' = (None, 0)"
    by (simp add: sample_env_def start_def)
  from tokenHeaders_bearer [OF got] show ?thesis
    by (simp add: start_def sample_env_def)
qed


section \<open>Refresh inside the request capability\<close>

text \<open>
  Profiles other than \<open>twitch\<close> that pass are stepped over: each costs one verification
  of the cookie.
\<close>

lemma authorized_skips_valid:
  assumes "''twitch'' \<notin> set pre" and "authorized e req pre s = (Inr True, s0)"
  shows "authorized e req (pre @ rest) s = authorized e req rest s0"
  using assms
proof (induction pre arbitrary: s)
  case Nil
  then show ?case by simp
next
  case (Cons a pre)
  obtain t w1 where v: "jwt_verify e (world s) (cookie_authorize req) = (t, w1)"
    by (cases "jwt_verify e (world s) (cookie_authorize req)")
  from Cons.prems v obtain tok where tok: "t = Some tok"
    by (cases t) (auto simp: do_jwt_verify_def)
  define s1 where "s1 = \<lparr>world = w1, trace = trace s @ [JwtVerify (cookie_authorize req)]\<rparr>"
  from Cons.prems have ne: "a \<noteq> ''twitch''" by auto
  from Cons.prems(2) v tok ne have valid: "isTokenValid e w1 tok"
    by (auto simp: do_jwt_verify_def split: if_splits)
  from Cons.prems(2) v tok valid ne have "authorized e req pre s1 = (Inr True, s0)"
    by (simp add: do_jwt_verify_def s1_def)
  with Cons.prems have "authorized e req (pre @ rest) s1 = authorized e req rest s0"
    by (intro Cons.IH) auto
  with v tok valid ne show ?case
    by (simp add: do_jwt_verify_def s1_def)
qed

text \<open>
  C10. Let \<open>twitch\<close> be reached in the list of profiles (the ones before it passed), the
  cookie verify, the validation call fail and the refresh call succeed with the body
  \<open>newToken\<close>. Then \<open>authorized\<close> returns \<open>true\<close>, and what it hands to \<open>storage.set\<close> and
  to \<open>jwt.sign\<close> is \<open>newToken\<close> itself, whatever it contains: no \<open>created_at\<close> and no
  default \<open>expires_in\<close> are written into it. The cookie is set to the signed value with
  no options, so without \<open>maxAge\<close>.
\<close>

theorem refresh_stores_response_as_received:
  assumes pre: "''twitch'' \<notin> set pre" "authorized e req pre s = (Inr True, s0)"
    and ver: "jwt_verify e (world s0) (cookie_authorize req) = (Some t, w1)"
    and val: "fetch e w1 (twitch_validate_request e t) = (r1, w2)" "\<not> resp_ok r1"
    and ref: "fetch e w2 (twitch_refresh_request e w2 t) = (r2, w3)" "resp_ok r2"
    and body: "resp_json r2 = Some newToken"
    and sgn: "jwt_sign e (storage_set e w3 req ''twitch'' newToken) newToken = (signed, w4)"
  shows "authorized e req (pre @ ''twitch'' # rest) s =
           (Inr True,
            \<lparr>world = w4,
             trace = trace s0 @
               [JwtVerify (cookie_authorize req),
                Fetch (twitch_validate_request e t),
                Fetch (twitch_refresh_request e w2 t),
                StorageSet ''twitch'' newToken,
                JwtSign newToken,
                SetCookie ''authorize'' (Some signed)
                  \<lparr>opt_expires = None, opt_maxAge = None\<rparr>]\<rparr>)"
proof -
  have "authorized e req (pre @ ''twitch'' # rest) s = authorized e req (''twitch'' # rest) s0"
    using pre by (rule authorized_skips_valid)
  also have "\<dots> = (Inr True,
            \<lparr>world = w4,
             trace = trace s0 @
               [JwtVerify (cookie_authorize req),
                Fetch (twitch_validate_request e t),
                Fetch (twitch_refresh_request e w2 t),
                StorageSet ''twitch'' newToken,
                JwtSign newToken,
                SetCookie ''authorize'' (Some signed)
                  \<lparr>opt_expires = None, opt_maxAge = None\<rparr>]\<rparr>)"
    using ver val ref body sgn
    by (simp add: twitch_check_def call_defs no_options_def)
  finally show ?thesis .
qed

theorem refresh_stores_response_as_received_witness:
  "''twitch'' \<notin> set [''github''] \<and>
   \<not> resp_ok (net_refresh (twitch_validate_request (sample_env net_refresh) session_token)) \<and>
   resp_ok (net_refresh (twitch_refresh_request (sample_env net_refresh) 2000000 session_token)) \<and>
   authorized (sample_env net_refresh) (visit ''home'' (Some ''cookie-1''))
     [''github'', ''twitch''] (start 2000000) =
     (Inr True,
      \<lparr>world = 2000000,
       trace =
         [JwtVerify (Some ''cookie-1''),
          JwtVerify (Some ''cookie-1''),
          Fetch (twitch_validate_request (sample_env net_refresh) session_token),
          Fetch (twitch_refresh_request (sample_env net_refresh) 2000000 session_token),
          StorageSet ''twitch''
            (JObj [(''access_token'', JStr ''AT-2''), (''refresh_token'', JStr ''RT-2'')]),
          JwtSign
            (JObj [(''access_token'', JStr ''AT-2''), (''refresh_token'', JStr ''RT-2'')]),
          SetCookie ''authorize'' (Some ''signed'')
            \<lparr>opt_expires = None, opt_maxAge = None\<rparr>]\<rparr>)"
proof -
  let ?e = "sample_env net_refresh"
  let ?req = "visit ''home'' (Some ''cookie-1'')"
  let ?s0 = "\<lparr>world = 2000000::nat, trace = [JwtVerify (Some ''cookie-1'')]\<rparr>"
  let ?new = "JObj [(''access_token'', JStr ''AT-2''), (''refresh_token'', JStr ''RT-2'')]"
  have p1: "''twitch'' \<notin> set [''github'']" by simp
  have p2: "authorized ?e ?req [''github''] (start 2000000) = (Inr True, ?s0)"
    by (simp add: do_jwt_verify_def sample_env_def visit_def start_def session_token_def
        sample_isTokenValid_def get_prop_def)
  have ver: "jwt_verify ?e (world ?s0) (cookie_authorize ?req) = (Some session_token, 2000000)"
    by (simp add: sample_env_def visit_def)
  have val: "fetch ?e 2000000 (twitch_validate_request ?e session_token) =
               (net_refresh (twitch_validate_request ?e session_token), 2000000)"
    by (simp add: sample_env_def)
  have bad: "\<not> resp_ok (net_refresh (twitch_validate_request ?e session_token))"
    by (simp add: net_refresh_def twitch_validate_request_def resp_ok_def)
  have ref: "fetch ?e 2000000 (twitch_refresh_request ?e 2000000 session_token) =
               (net_refresh (twitch_refresh_request ?e 2000000 session_token), 2000000)"
    by (simp add: sample_env_def)
  have ok: "resp_ok (net_refresh (twitch_refresh_request ?e 2000000 session_token))"
    by (simp add: net_refresh_def twitch_refresh_request_def resp_ok_def json_response_def)
  have body: "resp_json (net_refresh (twitch_refresh_request ?e 2000000 session_token)) = Some ?new"
    by (simp add: net_refresh_def twitch_refresh_request_def json_response_def)
  have sgn: "jwt_sign ?e (storage_set ?e 2000000 ?req ''twitch'' ?new) ?new = (''signed'', 2000000)"
    by (simp add: sample_env_def)
  from refresh_stores_response_as_received [OF p1 p2 ver val bad ref ok body sgn, of "[]"]
    bad ok
  show ?thesis
    by (simp add: visit_def)
qed


section \<open>The callback: the token that is stored\<close>

text \<open>
  C4, as the code has it. Let the callback of a registered profile pass the state check
  and the token endpoint answer with a 2xx status, a JSON content type and a JSON object
  \<open>t\<close>. The token \<open>tok\<close> built from \<open>t\<close> has \<open>expires_in\<close> 3600 when \<open>t\<close> has no
  \<open>expires_in\<close> or has \<open>null\<close> there and the value of \<open>t\<close> otherwise, has \<open>created_at\<close>
  equal to \<open>Date.now() / 1000\<close>, and agrees with \<open>t\<close> on every other property. For a
  profile other than \<open>twitch\<close> this \<open>tok\<close> is what is stored and signed, and the cookie
  gets its \<open>expires_in\<close> as \<open>maxAge\<close>. For \<open>twitch\<close>, when the validation call succeeds
  with the body \<open>certificate\<close>, what is stored and signed is \<open>tok\<close> overlaid with the
  properties of \<open>certificate\<close>, while \<open>maxAge\<close> is still the \<open>expires_in\<close> of \<open>tok\<close>.
\<close>

theorem stored_token_after_exchange:
  fixes e :: "'w env"
  assumes reg: "resolveProvider (cfg_profiles cfg) (req_name req) = Profile p"
    and chk: "state_check e (world s) req (req_name req) (query_state req) = (True, w1)"
    and dec: "decodeURIComponent e (case query_code req of None \<Rightarrow> ''undefined'' | Some c \<Rightarrow> c) =
                Some code"
    and f: "fetch e w1 (token_request e cfg p (req_name req) code) = (r, w2)"
    and ok: "resp_ok r" "json_content_type r"
    and body: "resp_json r = Some (JObj t)"
  defines "tok \<equiv> stamp_token (date_now e w2) t"
  shows "get_prop tok ''expires_in'' =
           Some (case get_prop t ''expires_in'' of
                   None \<Rightarrow> JNum 3600 | Some JNull \<Rightarrow> JNum 3600 | Some v \<Rightarrow> v) \<and>
         get_prop tok ''created_at'' = Some (JNum (real_of_int (date_now e w2) / 1000)) \<and>
         (\<forall>k. k \<noteq> ''expires_in'' \<and> k \<noteq> ''created_at'' \<longrightarrow> get_prop tok k = get_prop t k) \<and>
         (req_name req \<noteq> ''twitch'' \<longrightarrow>
            authorized_handler e cfg req s =
              (Reply ''Found redirect'' ''Found'' (buildRedirectToUri cfg (req_name req)),
               \<lparr>world = snd (jwt_sign e (storage_set e w2 req (req_name req) (JObj tok)) (JObj tok)),
                trace = trace s @
                  [StateCheck (req_name req) (query_state req),
                   Fetch (token_request e cfg p (req_name req) code),
                   StorageSet (req_name req) (JObj tok),
                   JwtSign (JObj tok),
                   SetCookie ''authorize''
                     (Some (fst (jwt_sign e (storage_set e w2 req (req_name req) (JObj tok))
                                   (JObj tok))))
                     \<lparr>opt_expires = None, opt_maxAge = get_prop tok ''expires_in''\<rparr>]\<rparr>)) \<and>
         (req_name req = ''twitch'' \<longrightarrow>
            (\<forall>r2 w3 certificate.
               fetch e w2 (twitch_validate_request e tok) = (r2, w3) \<and> resp_ok r2 \<and>
               resp_json r2 = Some certificate \<longrightarrow>
               authorized_handler e cfg req s =
                 (Reply ''Found redirect'' ''Found'' (buildRedirectToUri cfg (req_name req)),
                  \<lparr>world = snd (jwt_sign e
                       (storage_set e w3 req ''twitch'' (JObj (spread tok (own_entries certificate))))
                       (JObj (spread tok (own_entries certificate)))),
                   trace = trace s @
                     [StateCheck ''twitch'' (query_state req),
                      Fetch (token_request e cfg p ''twitch'' code),
                      Fetch (twitch_validate_request e tok),
                      StorageSet ''twitch'' (JObj (spread tok (own_entries certificate))),
                      JwtSign (JObj (spread tok (own_entries certificate))),
                      SetCookie ''authorize''
                        (Some (fst (jwt_sign e
                           (storage_set e w3 req ''twitch''
                              (JObj (spread tok (own_entries certificate))))
                           (JObj (spread tok (own_entries certificate))))))
                        \<lparr>opt_expires = None, opt_maxAge = get_prop tok ''expires_in''\<rparr>]\<rparr>)))"
proof -
  have expires: "get_prop tok ''expires_in'' =
           Some (case get_prop t ''expires_in'' of
                   None \<Rightarrow> JNum 3600 | Some JNull \<Rightarrow> JNum 3600 | Some v \<Rightarrow> v)"
    by (simp add: tok_def get_prop_stamp_token default_expires_in_def)
  have created: "get_prop tok ''created_at'' = Some (JNum (real_of_int (date_now e w2) / 1000))"
    by (simp add: tok_def get_prop_stamp_token)
  have others: "\<forall>k. k \<noteq> ''expires_in'' \<and> k \<noteq> ''created_at'' \<longrightarrow> get_prop tok k = get_prop t k"
    by (simp add: tok_def get_prop_stamp_token)
  have run: "authorized_handler e cfg req s =
      accept_token e cfg req (JObj t)
        \<lparr>world = w2, trace = trace s @ [StateCheck (req_name req) (query_state req),
                                        Fetch (token_request e cfg p (req_name req) code)]\<rparr>"
    using reg chk dec f ok body
    by (simp add: authorized_handler_def do_state_check_def do_fetch_def)
  have plain: "req_name req \<noteq> ''twitch'' \<longrightarrow>
            authorized_handler e cfg req s =
              (Reply ''Found redirect'' ''Found'' (buildRedirectToUri cfg (req_name req)),
               \<lparr>world = snd (jwt_sign e (storage_set e w2 req (req_name req) (JObj tok)) (JObj tok)),
                trace = trace s @
                  [StateCheck (req_name req) (query_state req),
                   Fetch (token_request e cfg p (req_name req) code),
                   StorageSet (req_name req) (JObj tok),
                   JwtSign (JObj tok),
                   SetCookie ''authorize''
                     (Some (fst (jwt_sign e (storage_set e w2 req (req_name req) (JObj tok))
                                   (JObj tok))))
                     \<lparr>opt_expires = None, opt_maxAge = get_prop tok ''expires_in''\<rparr>]\<rparr>)"
    by (simp add: run accept_token_def establish_session_def call_defs Let_def tok_def
        split: prod.splits)
  have certified: "req_name req = ''twitch'' \<longrightarrow>
            (\<forall>r2 w3 certificate.
               fetch e w2 (twitch_validate_request e tok) = (r2, w3) \<and> resp_ok r2 \<and>
               resp_json r2 = Some certificate \<longrightarrow>
               authorized_handler e cfg req s =
                 (Reply ''Found redirect'' ''Found'' (buildRedirectToUri cfg (req_name req)),
                  \<lparr>world = snd (jwt_sign e
                       (storage_set e w3 req ''twitch'' (JObj (spread tok (own_entries certificate))))
                       (JObj (spread tok (own_entries certificate)))),
                   trace = trace s @
                     [StateCheck ''twitch'' (query_state req),
                      Fetch (token_request e cfg p ''twitch'' code),
                      Fetch (twitch_validate_request e tok),
                      StorageSet ''twitch'' (JObj (spread tok (own_entries certificate))),
                      JwtSign (JObj (spread tok (own_entries certificate))),
                      SetCookie ''authorize''
                        (Some (fst (jwt_sign e
                           (storage_set e w3 req ''twitch''
                              (JObj (spread tok (own_entries certificate))))
                           (JObj (spread tok (own_entries certificate))))))
                        \<lparr>opt_expires = None, opt_maxAge = get_prop tok ''expires_in''\<rparr>]\<rparr>))"
    by (simp add: run accept_token_def establish_session_def call_defs Let_def tok_def
        split: prod.splits)
  from expires created others plain certified show ?thesis by blast
qed


lemma sample_twitch:
  "resolveProvider (cfg_profiles sample_config) ''twitch'' = Profile twitch"
  by (simp add: resolveProvider_def sample_defs)

theorem stored_token_after_exchange_witness:
  "resp_json (net_ok (token_request (sample_env net_ok) sample_config github ''github'' ''abc'')) =
     Some (JObj [(''access_token'', JStr ''X''), (''token_type'', JStr ''bearer'')]) \<and>
   authorized_handler (sample_env net_ok) sample_config (callback ''github'' ''st-1'')
     (start 5000000) =
     (Reply ''Found redirect'' ''Found'' ''http://localhost:3000/user/github/profile'',
      \<lparr>world = 5000000,
       trace =
         [StateCheck ''github'' (Some ''st-1''),
          Fetch (token_request (sample_env net_ok) sample_config github ''github'' ''abc''),
          StorageSet ''github''
            (JObj [(''access_token'', JStr ''X''), (''token_type'', JStr ''bearer''),
                   (''expires_in'', JNum 3600), (''created_at'', JNum 5000)]),
          JwtSign
            (JObj [(''access_token'', JStr ''X''), (''token_type'', JStr ''bearer''),
                   (''expires_in'', JNum 3600), (''created_at'', JNum 5000)]),
          SetCookie ''authorize'' (Some ''signed'')
            \<lparr>opt_expires = None, opt_maxAge = Some (JNum 3600)\<rparr>]\<rparr>)"
proof -
  let ?e = "sample_env net_ok"
  let ?req = "callback ''github'' ''st-1''"
  let ?rq = "token_request ?e sample_config github (req_name ?req) ''abc''"
  let ?t = "[(''access_token'', JStr ''X''), (''token_type'', JStr ''bearer'')]"
  have reg: "resolveProvider (cfg_profiles sample_config) (req_name ?req) = Profile github"
    by (simp add: sample_github callback_def)
  have chk: "state_check ?e (world (start 5000000)) ?req (req_name ?req) (query_state ?req) =
               (True, 5000000)"
    by (simp add: sample_env_def callback_def start_def)
  have dec: "decodeURIComponent ?e (case query_code ?req of None \<Rightarrow> ''undefined'' | Some c \<Rightarrow> c) =
               Some ''abc''"
    by (simp add: sample_env_def callback_def)
  have f: "fetch ?e 5000000 ?rq = (net_ok ?rq, 5000000)"
    by (simp add: sample_env_def)
  have ok1: "resp_ok (net_ok ?rq)"
    by (simp add: net_ok_def token_request_def github_def json_response_def resp_ok_def)
  have ok2: "json_content_type (net_ok ?rq)"
    by (simp add: net_ok_def token_request_def github_def json_response_def
        json_content_type_def startsWith_def)
  have body: "resp_json (net_ok ?rq) = Some (JObj ?t)"
    by (simp add: net_ok_def token_request_def github_def json_response_def)
  have name: "req_name ?req \<noteq> ''twitch''"
    by (simp add: callback_def)
  have tok: "stamp_token (date_now ?e 5000000) ?t =
               [(''access_token'', JStr ''X''), (''token_type'', JStr ''bearer''),
                (''expires_in'', JNum 3600), (''created_at'', JNum 5000)]"
    by (simp add: stamp_token_def default_expires_in_def get_prop_def set_prop_def sample_env_def)
  have dest: "buildRedirectToUri sample_config ''github'' =
                ''http://localhost:3000/user/github/profile''"
    by (simp add: uri_defs sample_config_def oauth2_config_def or_default_def)
  from stored_token_after_exchange [OF reg chk dec f ok1 ok2 body] name
  have "authorized_handler ?e sample_config ?req (start 5000000) =
          (Reply ''Found redirect'' ''Found'' (buildRedirectToUri sample_config (req_name ?req)),
           \<lparr>world = snd (jwt_sign ?e
                (storage_set ?e 5000000 ?req (req_name ?req)
                   (JObj (stamp_token (date_now ?e 5000000) ?t)))
                (JObj (stamp_token (date_now ?e 5000000) ?t))),
            trace = trace (start 5000000) @
              [StateCheck (req_name ?req) (query_state ?req),
               Fetch ?rq,
               StorageSet (req_name ?req) (JObj (stamp_token (date_now ?e 5000000) ?t)),
               JwtSign (JObj (stamp_token (date_now ?e 5000000) ?t)),
               SetCookie ''authorize''
                 (Some (fst (jwt_sign ?e
                    (storage_set ?e 5000000 ?req (req_name ?req)
                       (JObj (stamp_token (date_now ?e 5000000) ?t)))
                    (JObj (stamp_token (date_now ?e 5000000) ?t)))))
                 \<lparr>opt_expires = None,
                  opt_maxAge = get_prop (stamp_token (date_now ?e 5000000) ?t) ''expires_in''\<rparr>]\<rparr>)"
    by blast
  then have "authorized_handler ?e sample_config ?req (start 5000000) =
     (Reply ''Found redirect'' ''Found'' ''http://localhost:3000/user/github/profile'',
      \<lparr>world = 5000000,
       trace =
         [StateCheck ''github'' (Some ''st-1''),
          Fetch (token_request ?e sample_config github ''github'' ''abc''),
          StorageSet ''github''
            (JObj [(''access_token'', JStr ''X''), (''token_type'', JStr ''bearer''),
                   (''expires_in'', JNum 3600), (''created_at'', JNum 5000)]),
          JwtSign
            (JObj [(''access_token'', JStr ''X''), (''token_type'', JStr ''bearer''),
                   (''expires_in'', JNum 3600), (''created_at'', JNum 5000)]),
          SetCookie ''authorize'' (Some ''signed'')
            \<lparr>opt_expires = None, opt_maxAge = Some (JNum 3600)\<rparr>]\<rparr>)"
    unfolding tok
    by (simp add: dest callback_def start_def sample_env_def get_prop_def)
  with body show ?thesis
    by (simp add: callback_def)
qed

text \<open>
  The same exchange for \<open>twitch\<close>: the token endpoint sent no \<open>expires_in\<close>, the
  validation endpoint sent 5000, and the token stored has 5000.
\<close>

theorem twitch_stores_certified_token:
  "resp_json (net_ok (token_request (sample_env net_ok) sample_config twitch ''twitch'' ''abc'')) =
     Some (JObj [(''access_token'', JStr ''X''), (''token_type'', JStr ''bearer'')]) \<and>
   snd (authorized_handler (sample_env net_ok) sample_config (callback ''twitch'' ''st-1'')
     (start 5000000)) =
     \<lparr>world = 5000000,
      trace =
        [StateCheck ''twitch'' (Some ''st-1''),
         Fetch (token_request (sample_env net_ok) sample_config twitch ''twitch'' ''abc''),
         Fetch \<lparr>rq_url = ''https://id.twitch.tv/oauth2/validate'', rq_method = ''GET'',
                rq_headers = [(''Authorization'', ''OAuth X'')], rq_body = None\<rparr>,
         StorageSet ''twitch''
           (JObj [(''access_token'', JStr ''X''), (''token_type'', JStr ''bearer''),
                  (''expires_in'', JNum 5000), (''created_at'', JNum 5000),
                  (''client_id'', JStr ''tw-id''), (''login'', JStr ''u1'')]),
         JwtSign
           (JObj [(''access_token'', JStr ''X''), (''token_type'', JStr ''bearer''),
                  (''expires_in'', JNum 5000), (''created_at'', JNum 5000),
                  (''client_id'', JStr ''tw-id''), (''login'', JStr ''u1'')]),
         SetCookie ''authorize'' (Some ''signed'')
           \<lparr>opt_expires = None, opt_maxAge = Some (JNum 3600)\<rparr>]\<rparr> \<and>
   JNum 5000 \<noteq> JNum 3600"
proof -
  have body: "resp_json (net_ok (token_request (sample_env net_ok) sample_config twitch ''twitch'' ''abc'')) =
     Some (JObj [(''access_token'', JStr ''X''), (''token_type'', JStr ''bearer'')])"
    by (simp add: net_ok_def token_request_def twitch_def json_response_def)
  have run: "snd (authorized_handler (sample_env net_ok) sample_config (callback ''twitch'' ''st-1'')
     (start 5000000)) =
     \<lparr>world = 5000000,
      trace =
        [StateCheck ''twitch'' (Some ''st-1''),
         Fetch (token_request (sample_env net_ok) sample_config twitch ''twitch'' ''abc''),
         Fetch \<lparr>rq_url = ''https://id.twitch.tv/oauth2/validate'', rq_method = ''GET'',
                rq_headers = [(''Authorization'', ''OAuth X'')], rq_body = None\<rparr>,
         StorageSet ''twitch''
           (JObj [(''access_token'', JStr ''X''), (''token_type'', JStr ''bearer''),
                  (''expires_in'', JNum 5000), (''created_at'', JNum 5000),
                  (''client_id'', JStr ''tw-id''), (''login'', JStr ''u1'')]),
         JwtSign
           (JObj [(''access_token'', JStr ''X''), (''token_type'', JStr ''bearer''),
                  (''expires_in'', JNum 5000), (''created_at'', JNum 5000),
                  (''client_id'', JStr ''tw-id''), (''login'', JStr ''u1'')]),
         SetCookie ''authorize'' (Some ''signed'')
           \<lparr>opt_expires = None, opt_maxAge = Some (JNum 3600)\<rparr>]\<rparr>"
    by (simp add: handler_defs call_defs sample_defs uri_defs object_defs)
  from body run show ?thesis by simp
qed


section \<open>Login: the parameters of the authorization URL\<close>

text \<open>
  C2, as the code has it. For a registered profile the login handler calls
  \<open>state.generate\<close> once and redirects to the URL that \<open>buildUrl\<close> makes of the
  provider's authorization URL, the merged parameters and the scope. In the merged
  parameters a key of the provider's extra parameters has the provider's value, also
  when it is \<open>client_id\<close>, \<open>redirect_uri\<close>, \<open>response_type\<close>, \<open>response_mode\<close> or
  \<open>state\<close>; these five have the value of the protocol only when the provider's extra
  parameters do not name them. (The extra parameters are an object, so their keys are
  distinct.)
\<close>

theorem provider_extras_override_protocol_params:
  assumes reg: "resolveProvider (cfg_profiles cfg) (req_name req) = Profile p"
    and gen: "state_generate e (world s) req (req_name req) = (generated, w1)"
    and wf: "distinct (map fst (params (auth (provider p))))"
  shows "login_handler e cfg req s =
           (UtilRedirect
              (buildUrl e (url (auth (provider p)))
                 (spread (authParams cfg p (req_name req) generated) (params (auth (provider p))))
                 (scope p)),
            \<lparr>world = w1, trace = trace s @ [StateGenerate (req_name req)]\<rparr>) \<and>
         (\<forall>k. get_prop
                 (spread (authParams cfg p (req_name req) generated) (params (auth (provider p)))) k =
                (case get_prop (params (auth (provider p))) k of
                   Some extra \<Rightarrow> Some extra
                 | None \<Rightarrow>
                     get_prop
                       [(''client_id'', JStr (clientId (provider p))),
                        (''redirect_uri'', JStr (buildRedirectUri cfg (req_name req))),
                        (''response_type'', JStr ''code''),
                        (''response_mode'', JStr ''query''),
                        (''state'', JStr generated)] k))"
proof -
  have "login_handler e cfg req s =
          (UtilRedirect
             (buildUrl e (url (auth (provider p)))
                (spread (authParams cfg p (req_name req) generated) (params (auth (provider p))))
                (scope p)),
           \<lparr>world = w1, trace = trace s @ [StateGenerate (req_name req)]\<rparr>)"
    using reg gen by (simp add: login_handler_def do_state_generate_def)
  moreover have "\<forall>k. get_prop
                 (spread (authParams cfg p (req_name req) generated) (params (auth (provider p)))) k =
                (case get_prop (params (auth (provider p))) k of
                   Some extra \<Rightarrow> Some extra
                 | None \<Rightarrow>
                     get_prop
                       [(''client_id'', JStr (clientId (provider p))),
                        (''redirect_uri'', JStr (buildRedirectUri cfg (req_name req))),
                        (''response_type'', JStr ''code''),
                        (''response_mode'', JStr ''query''),
                        (''state'', JStr generated)] k)"
    using get_prop_spread [OF wf] by (simp add: authParams_def)
  ultimately show ?thesis by blast
qed

lemma sample_custom:
  "resolveProvider (cfg_profiles sample_config) ''custom'' = Profile overriding"
  by (simp add: resolveProvider_def sample_defs)

theorem provider_extras_override_protocol_params_witness:
  "distinct (map fst (params (auth (provider overriding)))) \<and>
   clientId (provider overriding) = ''real-id'' \<and>
   get_prop (params (auth (provider overriding))) ''client_id'' = Some (JStr ''extra-id'') \<and>
   get_prop (params (auth (provider overriding))) ''state'' = None \<and>
   get_prop (spread (authParams sample_config overriding ''custom'' ''st-1'')
               (params (auth (provider overriding)))) ''client_id'' = Some (JStr ''extra-id'') \<and>
   get_prop (spread (authParams sample_config overriding ''custom'' ''st-1'')
               (params (auth (provider overriding)))) ''state'' = Some (JStr ''st-1'')"
proof -
  let ?req = "visit ''custom'' None"
  have reg: "resolveProvider (cfg_profiles sample_config) (req_name ?req) = Profile overriding"
    by (simp add: sample_custom visit_def)
  have gen: "state_generate (sample_env net_ok) (world (start 0)) ?req (req_name ?req) = (''st-1'', 0)"
    by (simp add: sample_env_def start_def)
  have wf: "distinct (map fst (params (auth (provider overriding))))"
    by (simp add: overriding_def)
  have id: "get_prop (params (auth (provider overriding))) ''client_id'' = Some (JStr ''extra-id'')"
    by (simp add: overriding_def get_prop_def)
  have st: "get_prop (params (auth (provider overriding))) ''state'' = None"
    by (simp add: overriding_def get_prop_def)
  from provider_extras_override_protocol_params [OF reg gen wf]
  have merged: "\<And>k. get_prop
                 (spread (authParams sample_config overriding (req_name ?req) ''st-1'')
                    (params (auth (provider overriding)))) k =
                (case get_prop (params (auth (provider overriding))) k of
                   Some extra \<Rightarrow> Some extra
                 | None \<Rightarrow>
                     get_prop
                       [(''client_id'', JStr (clientId (provider overriding))),
                        (''redirect_uri'', JStr (buildRedirectUri sample_config (req_name ?req))),
                        (''response_type'', JStr ''code''),
                        (''response_mode'', JStr ''query''),
                        (''state'', JStr ''st-1'')] k)"
    by blast
  from merged [of "''client_id''"] merged [of "''state''"] wf id st show ?thesis
    by (simp add: visit_def get_prop_Cons overriding_def)
qed

text \<open>
  A provider whose extra parameters name \<open>client_id\<close>: the URL the login handler
  redirects to carries the extra value, not the client id of the configuration.
\<close>

theorem extra_client_id_reaches_url:
  "clientId (provider overriding) = ''real-id'' \<and>
   fst (login_handler (sample_env net_ok) sample_config (visit ''custom'' None) (start 0)) =
     UtilRedirect
       (sample_buildUrl ''https://idp.example/authorize''
          [(''client_id'', JStr ''extra-id''),
           (''redirect_uri'', JStr ''http://localhost:3000/login/custom/authorized''),
           (''response_type'', JStr ''code''),
           (''response_mode'', JStr ''query''),
           (''state'', JStr ''st-1''),
           (''prompt'', JStr ''consent'')]
          [''user'']) \<and>
   sample_buildUrl ''https://idp.example/authorize''
     [(''client_id'', JStr ''extra-id''),
      (''redirect_uri'', JStr ''http://localhost:3000/login/custom/authorized''),
      (''response_type'', JStr ''code''),
      (''response_mode'', JStr ''query''),
      (''state'', JStr ''st-1''),
      (''prompt'', JStr ''consent'')]
     [''user''] =
   ''https://idp.example/authorize?client_id=extra-id&redirect_uri=http://localhost:3000/login/custom/authorized&response_type=code&response_mode=query&state=st-1&prompt=consent&scope=user''"
proof -
  have a: "clientId (provider overriding) = ''real-id''"
    by (simp add: overriding_def)
  have b: "fst (login_handler (sample_env net_ok) sample_config (visit ''custom'' None) (start 0)) =
     UtilRedirect
       (sample_buildUrl ''https://idp.example/authorize''
          [(''client_id'', JStr ''extra-id''),
           (''redirect_uri'', JStr ''http://localhost:3000/login/custom/authorized''),
           (''response_type'', JStr ''code''),
           (''response_mode'', JStr ''query''),
           (''state'', JStr ''st-1''),
           (''prompt'', JStr ''consent'')]
          [''user''])"
    by (simp add: handler_defs call_defs sample_defs uri_defs object_defs)
  have c: "sample_buildUrl ''https://idp.example/authorize''
     [(''client_id'', JStr ''extra-id''),
      (''redirect_uri'', JStr ''http://localhost:3000/login/custom/authorized''),
      (''response_type'', JStr ''code''),
      (''response_mode'', JStr ''query''),
      (''state'', JStr ''st-1''),
      (''prompt'', JStr ''consent'')]
     [''user''] =
   ''https://idp.example/authorize?client_id=extra-id&redirect_uri=http://localhost:3000/login/custom/authorized&response_type=code&response_mode=query&state=st-1&prompt=consent&scope=user''"
    by (simp add: sample_buildUrl_def)
  from a b c show ?thesis by simp
qed


section \<open>The request capability with several profiles\<close>

text \<open>
  C3. The claim: \<open>authorized\<close> is the conjunction over all requested profiles. The code,
  evaluated with a cookie whose token expired at second 4600 and the clock at second
  5000, while the validation endpoint of Twitch accepts the token: for \<open>github\<close> alone
  the answer is \<open>false\<close>; for \<open>twitch, github\<close> the answer is \<open>true\<close> after one
  verification and one validation call, \<open>github\<close> never being looked at; for
  \<open>github, twitch\<close> the answer is \<open>false\<close>.
\<close>

theorem authorized_returns_at_twitch:
  "authorized (sample_env net_ok) (visit ''home'' (Some ''cookie-1'')) [''github'']
     (start 5000000) =
     (Inr False, \<lparr>world = 5000000, trace = [JwtVerify (Some ''cookie-1'')]\<rparr>) \<and>
   authorized (sample_env net_ok) (visit ''home'' (Some ''cookie-1'')) [''twitch'', ''github'']
     (start 5000000) =
     (Inr True,
      \<lparr>world = 5000000,
       trace =
         [JwtVerify (Some ''cookie-1''),
          Fetch \<lparr>rq_url = ''https://id.twitch.tv/oauth2/validate'', rq_method = ''GET'',
                 rq_headers = [(''Authorization'', ''OAuth AT-1'')], rq_body = None\<rparr>]\<rparr>) \<and>
   authorized (sample_env net_ok) (visit ''home'' (Some ''cookie-1'')) [''github'', ''twitch'']
     (start 5000000) =
     (Inr False, \<lparr>world = 5000000, trace = [JwtVerify (Some ''cookie-1'')]\<rparr>)"
  by (simp add: handler_defs call_defs sample_defs object_defs)

section \<open>Names that are not profiles\<close>

text \<open>
  A name that is neither a configured profile nor inherited is answered with 404 by all
  three handlers, which then touch nothing.
\<close>

lemma unknown_name_not_found:
  assumes "req_name req \<notin> fst ` set (own_profiles (cfg_profiles cfg))"
    and "req_name req \<notin> set (inherited_keys (cfg_profiles cfg))"
  shows "login_handler e cfg req s = (Respond 404 ''Not Found'', s)"
    and "authorized_handler e cfg req s = (Respond 404 ''Not Found'', s)"
    and "logout_handler e cfg req s = (Respond 404 ''Not Found'', s)"
  using assms
  by (simp_all add: login_handler_def authorized_handler_def logout_handler_def
      resolveProvider_def)

text \<open>
  C7. The claim: a name that is not a key of the configured profiles gets 404 from each
  endpoint, without side effect. The code, evaluated for the name \<open>constructor\<close> with the
  profiles given as an object literal: the name is not a configured profile, yet logout
  clears the cookie and answers \<open>Logged out!\<close>, login throws a \<open>TypeError\<close>, and the
  callback calls \<open>state.check\<close> and then throws a \<open>TypeError\<close>.
\<close>

theorem inherited_name_is_not_404:
  "''constructor'' \<notin> fst ` set (own_profiles (cfg_profiles sample_config)) \<and>
   logout_handler (sample_env net_ok) sample_config (visit ''constructor'' (Some ''cookie-1''))
     (start 7000) =
     (Reply ''Logged out!'' ''OK'' ''http://localhost:3000/user/constructor/profile'',
      \<lparr>world = 7000,
       trace = [SetCookie ''authorize'' None
                  \<lparr>opt_expires = Some 7000, opt_maxAge = Some (JNum 0)\<rparr>]\<rparr>) \<and>
   login_handler (sample_env net_ok) sample_config (visit ''constructor'' None) (start 0) =
     (Throw TypeError, \<lparr>world = 0, trace = []\<rparr>) \<and>
   authorized_handler (sample_env net_ok) sample_config (callback ''constructor'' ''st-1'')
     (start 0) =
     (Throw TypeError, \<lparr>world = 0, trace = [StateCheck ''constructor'' (Some ''st-1'')]\<rparr>)"
  by (simp add: handler_defs call_defs sample_defs uri_defs object_defs)


text \<open>So the answer to \<open>/logout/constructor\<close> is not the 404 response, and a cookie was set.\<close>

theorem inherited_name_is_not_404_witness:
  "fst (logout_handler (sample_env net_ok) sample_config
          (visit ''constructor'' (Some ''cookie-1'')) (start 7000)) \<noteq> Respond 404 ''Not Found'' \<and>
   trace (snd (logout_handler (sample_env net_ok) sample_config
          (visit ''constructor'' (Some ''cookie-1'')) (start 7000))) \<noteq> []"
  using inherited_name_is_not_404 by simp

end
